theory Spec2Isabelle
  imports
    Main
    "HOL-Library.Word"
    "HOL-Library.Multiset"
    "HOL-Library.Product_Lexorder"
    "HOL-Library.List_Lexorder"
    "HOL-Library.Char_ord"
begin

section \<open>zk\_bridge\_events\_snapshot: the snapshot and commitment engine of app.py\<close>

text \<open>
  The model follows \<^verbatim>\<open>src/app.py\<close>. Python integers are \<open>int\<close>, \<open>str\<close> is
  \<open>string\<close>, \<open>bytes\<close> is a list of 8-bit words, \<open>None\<close>-able values are options, a
  \<open>sys.exit(1)\<close> or an uncaught exception is the left summand of a result. Printing to
  stderr and the wall-clock fields (\<open>elapsedSec\<close>, \<open>generatedAtUtc\<close>) are left out:
  they are floating point and real time. The calls that reach the network are recorded
  in a trace, in the order in which the code makes them.
\<close>

subsection \<open>Data\<close>

type_synonym bytes = "8 word list"

text \<open>One entry of the list returned by \<open>w3.eth.get_logs\<close>, with the five keys the loop reads.\<close>

record raw_log =
  lg_blockNumber :: int
  lg_transactionHash :: bytes
  lg_logIndex :: int
  lg_data :: bytes
  lg_topics :: "bytes list"

text \<open>The dictionary appended to \<open>logs\<close> in the loop of \<open>fetch_logs\<close>.\<close>

record log_entry =
  blockNumber :: int
  transactionHash :: string
  logIndex :: int
  data :: string
  topics :: "string list"

text \<open>The \<open>params\<close> dictionary handed to \<open>w3.eth.get_logs\<close>; the key \<open>topics\<close> is optional.\<close>

record filter_params =
  fp_fromBlock :: int
  fp_toBlock :: int
  fp_address :: string
  fp_topics :: "string list option"

text \<open>The \<open>meta\<close> dictionary of \<open>fetch_logs\<close> (without \<open>elapsedSec\<close>) and its result.\<close>

record meta =
  fromBlockRequested :: int
  toBlockRequested :: int
  fromBlockEffective :: int
  toBlockEffective :: int
  logCount :: nat
  uniqueTxCount :: nat
  maxLogs :: int
  topic0Filter :: "string option"
  commitmentKeccak :: string

record snapshot =
  snap_meta :: meta
  snap_logs :: "log_entry list"

text \<open>The ways in which a run ends without a snapshot.\<close>

datatype error =
    BlocksNotPositive       \<comment> \<open>\<open>--blocks must be > 0\<close>, \<open>sys.exit(1)\<close>\<close>
  | ConnectFailed           \<comment> \<open>\<open>w3.is_connected()\<close> is false, \<open>sys.exit(1)\<close>\<close>
  | InvalidAddress          \<comment> \<open>\<open>ValueError\<close> of \<open>normalize_address\<close>, not caught\<close>
  | FetchFailed             \<comment> \<open>\<open>w3.eth.get_logs\<close> raised, \<open>sys.exit(1)\<close>\<close>
  | RpcRaised               \<comment> \<open>\<open>w3.eth.block_number\<close> or \<open>chain_id\<close> raised outside a \<open>try\<close>\<close>

subsection \<open>Hexadecimal rendering\<close>

text \<open>
  Modelled from the spec: \<open>Web3.to_hex\<close> belongs to the web3 library and is not in the
  source. On a byte string it gives the lowercase hexadecimal digits of every byte, two
  per byte, after the prefix \<open>0x\<close>, with no padding (section 4.2).
\<close>

definition hex_digit :: "nat \<Rightarrow> char" where
  "hex_digit n = ''0123456789abcdef'' ! (n mod 16)"

definition hex_byte :: "8 word \<Rightarrow> string" where
  "hex_byte b = [hex_digit (unat b div 16), hex_digit (unat b mod 16)]"

definition to_hex :: "bytes \<Rightarrow> string" where
  "to_hex bs = ''0x'' @ concat (map hex_byte bs)"

subsection \<open>The body of \<open>fetch_logs\<close> after the RPC call\<close>

text \<open>Lines 126 to 131: \<open>logs_raw[:max_logs]\<close> when the limit is positive and exceeded.\<close>

definition truncate_logs :: "int \<Rightarrow> 'a list \<Rightarrow> 'a list" where
  "truncate_logs max_logs logs_raw =
     (if max_logs > 0 \<and> int (length logs_raw) > max_logs
      then take (nat max_logs) logs_raw
      else logs_raw)"

text \<open>Lines 139 to 143 and 151 to 159: the dictionary built from one raw log.\<close>

definition normalize_log :: "raw_log \<Rightarrow> log_entry" where
  "normalize_log lg =
     \<lparr> blockNumber = lg_blockNumber lg,
       transactionHash = to_hex (lg_transactionHash lg),
       logIndex = lg_logIndex lg,
       data = to_hex (lg_data lg),
       topics = map to_hex (lg_topics lg) \<rparr>"

text \<open>The four variables the loop updates: \<open>logs\<close>, \<open>tx_set\<close>, \<open>min_block_seen\<close>, \<open>max_block_seen\<close>.\<close>

record loop_state =
  ls_logs :: "log_entry list"
  ls_tx_set :: "string set"
  ls_min_block_seen :: "int option"
  ls_max_block_seen :: "int option"

definition loop_init :: loop_state where
  "loop_init = \<lparr> ls_logs = [], ls_tx_set = {}, ls_min_block_seen = None, ls_max_block_seen = None \<rparr>"

text \<open>Lines 139 to 159: one iteration of \<open>for lg in logs_raw\<close>.\<close>

definition loop_body :: "loop_state \<Rightarrow> raw_log \<Rightarrow> loop_state" where
  "loop_body s lg =
     (let e = normalize_log lg;
          bn = blockNumber e
      in \<lparr> ls_logs = ls_logs s @ [e],
           ls_tx_set = insert (transactionHash e) (ls_tx_set s),
           ls_min_block_seen =
             (case ls_min_block_seen s of
                None \<Rightarrow> Some bn
              | Some m \<Rightarrow> if bn < m then Some bn else Some m),
           ls_max_block_seen =
             (case ls_max_block_seen s of
                None \<Rightarrow> Some bn
              | Some m \<Rightarrow> if bn > m then Some bn else Some m) \<rparr>)"

fun scan_logs :: "loop_state \<Rightarrow> raw_log list \<Rightarrow> loop_state" where
  "scan_logs s [] = s"
| "scan_logs s (lg # rest) = scan_logs (loop_body s lg) rest"

text \<open>Line 161: the key of \<open>logs.sort\<close>, a Python tuple compared lexicographically.\<close>

definition sort_key_of :: "log_entry \<Rightarrow> int \<times> string \<times> int" where
  "sort_key_of x = (blockNumber x, transactionHash x, logIndex x)"

text \<open>
  Line 161: \<open>list.sort\<close> is a stable sort. A stable sort by a key has one possible
  result, the one that insertion sort by that key computes.
\<close>

definition sort_logs :: "log_entry list \<Rightarrow> log_entry list" where
  "sort_logs ls = sort_key sort_key_of ls"

subsection \<open>\<open>json.dumps(logs, sort_keys=True, separators=(",", ":"))\<close>\<close>

text \<open>The JSON values that occur in \<open>logs\<close>: integers, strings, lists and dictionaries.\<close>

datatype json =
    JInt int
  | JStr string
  | JList "json list"
  | JDict "(string \<times> json) list"

text \<open>\<open>int.__repr__\<close>: decimal digits, most significant first, a minus sign when negative.\<close>

definition digit_char :: "nat \<Rightarrow> char" where
  "digit_char n = ''0123456789'' ! (n mod 10)"

fun show_nat :: "nat \<Rightarrow> string" where
  "show_nat n = (if n < 10 then [digit_char n] else show_nat (n div 10) @ [digit_char (n mod 10)])"

declare show_nat.simps [simp del]

definition int_repr :: "int \<Rightarrow> string" where
  "int_repr i = (if i < 0 then CHR ''-'' # show_nat (nat (- i)) else show_nat (nat i))"

text \<open>
  \<open>json.encoder.encode_basestring_ascii\<close>: the string between double quotes, with
  the quote, the backslash and every character outside the range from space to tilde
  escaped.
\<close>

definition json_escape_char :: "char \<Rightarrow> string" where
  "json_escape_char c =
     (let n = (of_char c :: nat) in
      if c = CHR 0x22 then [CHR 0x5C, CHR 0x22]
      else if c = CHR 0x5C then [CHR 0x5C, CHR 0x5C]
      else if n = 8 then [CHR 0x5C, CHR ''b'']
      else if n = 9 then [CHR 0x5C, CHR ''t'']
      else if n = 10 then [CHR 0x5C, CHR ''n'']
      else if n = 12 then [CHR 0x5C, CHR ''f'']
      else if n = 13 then [CHR 0x5C, CHR ''r'']
      else if n < 32 \<or> 126 < n
        then [CHR 0x5C, CHR ''u'', CHR ''0'', CHR ''0'', hex_digit (n div 16), hex_digit (n mod 16)]
      else [c])"

definition json_str :: "string \<Rightarrow> string" where
  "json_str s = CHR 0x22 # concat (map json_escape_char s) @ [CHR 0x22]"

text \<open>\<open>sep.join(parts)\<close>.\<close>

fun join :: "string \<Rightarrow> string list \<Rightarrow> string" where
  "join sep [] = []"
| "join sep [p] = p"
| "join sep (p # q # ps) = p @ sep @ join sep (q # ps)"

text \<open>
  The encoder with \<open>sort_keys=True\<close> and the separators \<open>,\<close> and \<open>:\<close>: the items of a
  dictionary are sorted by key before they are written.
\<close>

function json_dumps :: "json \<Rightarrow> string" where
  "json_dumps (JInt i) = int_repr i"
| "json_dumps (JStr s) = json_str s"
| "json_dumps (JList xs) = ''['' @ join '','' (map json_dumps xs) @ '']''"
| "json_dumps (JDict kvs) =
     ''{'' @ join '','' (map (\<lambda>kv. json_str (fst kv) @ '':'' @ json_dumps (snd kv))
                           (sort_key fst kvs)) @ ''}''"
  by pat_completeness auto

termination
proof (relation "measure size")
  show "wf (measure (size :: json \<Rightarrow> nat))" by simp
next
  fix xs :: "json list" and x
  assume "x \<in> set xs"
  then show "(x, JList xs) \<in> measure size"
    by (induction xs) auto
next
  fix kvs :: "(string \<times> json) list" and kv
  assume "kv \<in> set (sort_key fst kvs)"
  then have "kv \<in> set kvs" by simp
  then show "(snd kv, JDict kvs) \<in> measure size"
    by (induction kvs) auto
qed

text \<open>The dictionary literal of lines 152 to 158, keys in the order in which it lists them.\<close>

definition entry_json :: "log_entry \<Rightarrow> json" where
  "entry_json e =
     JDict [(''blockNumber'', JInt (blockNumber e)),
            (''transactionHash'', JStr (transactionHash e)),
            (''logIndex'', JInt (logIndex e)),
            (''data'', JStr (data e)),
            (''topics'', JList (map JStr (topics e)))]"

text \<open>\<open>str.encode()\<close> on a string of ASCII characters, which is what \<open>json.dumps\<close> returns.\<close>

definition str_encode :: "string \<Rightarrow> bytes" where
  "str_encode s = map (\<lambda>c. of_nat (of_char c)) s"

text \<open>Line 163.\<close>

definition encode_logs :: "log_entry list \<Rightarrow> bytes" where
  "encode_logs ls = str_encode (json_dumps (JList (map entry_json ls)))"

subsection \<open>The web3 collaborator\<close>

text \<open>
  The library and the node are parameters of the model. \<open>to_checksum_address\<close> gives
  \<open>None\<close> where the library raises. \<open>keccak_hex\<close> stands for
  \<open>Web3.keccak(b).hex()\<close>. \<open>is_connected\<close>, \<open>chain_id\<close>, \<open>block_number\<close> and
  \<open>get_logs\<close> are the answers of the node behind the RPC URL: \<open>None\<close> is a raised
  exception, and \<open>block_number k\<close> is the answer to the read of the tip that follows
  \<open>k\<close> earlier reads, since the tip moves between reads.
\<close>

record web3 =
  to_checksum_address :: "string \<Rightarrow> string option"
  keccak_hex :: "bytes \<Rightarrow> string"
  is_connected :: bool
  chain_id :: "int option"
  block_number :: "nat \<Rightarrow> int option"
  get_logs :: "filter_params \<Rightarrow> raw_log list option"

text \<open>The requests sent to the node, kept in the order in which they are made.\<close>

datatype rpc_call =
    CallIsConnected
  | CallChainId
  | CallBlockNumber
  | CallGetLogs filter_params

definition tip_reads :: "rpc_call list \<Rightarrow> nat" where
  "tip_reads tr = length (filter (\<lambda>c. c = CallBlockNumber) tr)"

definition read_block_number :: "web3 \<Rightarrow> rpc_call list \<Rightarrow> int option \<times> rpc_call list" where
  "read_block_number w3 tr = (block_number w3 (tip_reads tr), tr @ [CallBlockNumber])"

definition read_chain_id :: "web3 \<Rightarrow> rpc_call list \<Rightarrow> int option \<times> rpc_call list" where
  "read_chain_id w3 tr = (chain_id w3, tr @ [CallChainId])"

text \<open>\<open>str.strip()\<close>: the characters for which \<open>str.isspace\<close> holds are removed at both ends.\<close>

definition py_isspace :: "char \<Rightarrow> bool" where
  "py_isspace c =
     (let n = (of_char c :: nat) in (9 \<le> n \<and> n \<le> 13) \<or> (28 \<le> n \<and> n \<le> 32) \<or> n = 133 \<or> n = 160)"

definition py_strip :: "string \<Rightarrow> string" where
  "py_strip s = rev (dropWhile py_isspace (rev (dropWhile py_isspace s)))"

text \<open>Lines 65 to 69.\<close>

definition normalize_address :: "web3 \<Rightarrow> string \<Rightarrow> error + string" where
  "normalize_address w3 addr =
     (case to_checksum_address w3 (py_strip addr) of
        None \<Rightarrow> Inl InvalidAddress
      | Some a \<Rightarrow> Inr a)"

subsection \<open>\<open>fetch_logs\<close>\<close>

text \<open>Lines 89, 90 and 94: the swap of an inverted range, then the clamp of \<open>to_block\<close>.\<close>

definition swap_range :: "int \<Rightarrow> int \<Rightarrow> int \<times> int" where
  "swap_range from_block to_block =
     (if from_block > to_block then (to_block, from_block) else (from_block, to_block))"

definition clamp_range :: "int \<Rightarrow> int \<times> int \<Rightarrow> int \<times> int" where
  "clamp_range latest r = (fst r, min (snd r) latest)"

text \<open>Lines 101 to 114: the filter sent to the node. An empty \<open>topic0\<close> is false in Python.\<close>

definition make_params :: "string \<Rightarrow> int \<Rightarrow> int \<Rightarrow> string option \<Rightarrow> filter_params" where
  "make_params addr from_block to_block topic0 =
     \<lparr> fp_fromBlock = from_block,
       fp_toBlock = to_block,
       fp_address = addr,
       fp_topics =
         (case topic0 of
            None \<Rightarrow> None
          | Some t \<Rightarrow> if t = [] then None else Some [py_strip t]) \<rparr>"

text \<open>Lines 126 to 182: from the list the node returned to the snapshot.\<close>

definition build_snapshot ::
  "web3 \<Rightarrow> int \<Rightarrow> int \<Rightarrow> string option \<Rightarrow> int \<Rightarrow> raw_log list \<Rightarrow> snapshot" where
  "build_snapshot w3 from_block to_block topic0 max_logs logs_raw =
     (let kept = truncate_logs max_logs logs_raw;
          s = scan_logs loop_init kept;
          logs = sort_logs (ls_logs s);
          encoded = encode_logs logs;
          commitment = keccak_hex w3 encoded
      in \<lparr> snap_meta =
             \<lparr> fromBlockRequested = from_block,
               toBlockRequested = to_block,
               fromBlockEffective =
                 (case ls_min_block_seen s of Some m \<Rightarrow> m | None \<Rightarrow> from_block),
               toBlockEffective =
                 (case ls_max_block_seen s of Some m \<Rightarrow> m | None \<Rightarrow> to_block),
               logCount = length logs,
               uniqueTxCount = card (ls_tx_set s),
               maxLogs = max_logs,
               topic0Filter = topic0,
               commitmentKeccak = commitment \<rparr>,
           snap_logs = logs \<rparr>)"

text \<open>
  The whole function, lines 81 to 182. The address is checked first, then the tip is
  read, then the logs are requested; the trace grows by one call at each request.
\<close>

definition fetch_logs ::
  "web3 \<Rightarrow> rpc_call list \<Rightarrow> string \<Rightarrow> int \<Rightarrow> int \<Rightarrow> string option \<Rightarrow> int
     \<Rightarrow> (error + snapshot) \<times> rpc_call list" where
  "fetch_logs w3 tr address from_block to_block topic0 max_logs =
     (let r = swap_range from_block to_block in
      case normalize_address w3 address of
        Inl e \<Rightarrow> (Inl e, tr)
      | Inr addr \<Rightarrow>
          (case read_block_number w3 tr of
             (None, tr1) \<Rightarrow> (Inl RpcRaised, tr1)
           | (Some latest, tr1) \<Rightarrow>
               (let r' = clamp_range latest r;
                    params = make_params addr (fst r') (snd r') topic0;
                    tr2 = tr1 @ [CallGetLogs params]
                in case get_logs w3 params of
                     None \<Rightarrow> (Inl FetchFailed, tr2)
                   | Some logs_raw \<Rightarrow>
                       (Inr (build_snapshot w3 (fst r') (snd r') topic0 max_logs logs_raw), tr2))))"

subsection \<open>\<open>main\<close>\<close>

text \<open>The parsed command line (\<open>argparse.Namespace\<close>).\<close>

record args =
  arg_address :: string
  arg_rpc :: string
  arg_from_block :: "int option"
  arg_to_block :: "int option"
  arg_blocks :: int
  arg_topic0 :: "string option"
  arg_max_logs :: int
  arg_pretty :: bool
  arg_no_human :: bool

text \<open>The \<open>payload\<close> dictionary of \<open>main\<close> (without \<open>generatedAtUtc\<close>).\<close>

record payload =
  pl_mode :: string
  pl_network :: string
  pl_chainId :: int
  pl_bridgeAddress :: string
  pl_data :: snapshot

text \<open>Lines 29 to 40.\<close>

definition NETWORKS :: "(int \<times> string) list" where
  "NETWORKS =
     [(1, ''Ethereum Mainnet''), (11155111, ''Sepolia Testnet''), (10, ''Optimism''),
      (137, ''Polygon''), (42161, ''Arbitrum One''), (8453, ''Base'')]"

definition network_name :: "int \<Rightarrow> string" where
  "network_name cid =
     (case map_of NETWORKS cid of
        Some n \<Rightarrow> n
      | None \<Rightarrow> ''Unknown (chain ID '' @ int_repr cid @ '')'')"

text \<open>
  Lines 43 to 62. The chain id and the tip are read for the log line only; an
  exception there is caught, and the tip is not read when the chain id raised.
\<close>

definition connect :: "web3 \<Rightarrow> rpc_call list \<Rightarrow> (error + unit) \<times> rpc_call list" where
  "connect w3 tr =
     (let tr1 = tr @ [CallIsConnected] in
      if \<not> is_connected w3 then (Inl ConnectFailed, tr1)
      else
        (case read_chain_id w3 tr1 of
           (None, tr2) \<Rightarrow> (Inr (), tr2)
         | (Some cid, tr2) \<Rightarrow> (Inr (), snd (read_block_number w3 tr2))))"

text \<open>Lines 255 to 262: the range from the two optional bounds, \<open>blocks\<close> and the tip.\<close>

definition resolve_range :: "int option \<Rightarrow> int option \<Rightarrow> int \<Rightarrow> int \<Rightarrow> int \<times> int" where
  "resolve_range from_arg to_arg blocks tip =
     (if from_arg = None \<and> to_arg = None
      then (max 0 (tip - blocks + 1), tip)
      else
        (let to_block = (case to_arg of Some t \<Rightarrow> t | None \<Rightarrow> tip);
             from_block = (case from_arg of Some f \<Rightarrow> f | None \<Rightarrow> max 0 (to_block - blocks + 1))
         in (from_block, to_block)))"

text \<open>
  Lines 238 to 324, from the parsed arguments to the payload that is printed. The run
  starts with an empty trace; \<open>w3\<close> is the object that \<open>connect(args.rpc)\<close> returns.
\<close>

definition main :: "web3 \<Rightarrow> args \<Rightarrow> (error + payload) \<times> rpc_call list" where
  "main w3 a =
     (if arg_blocks a \<le> 0 then (Inl BlocksNotPositive, [])
      else
        (case connect w3 [] of
           (Inl e, tr1) \<Rightarrow> (Inl e, tr1)
         | (Inr u, tr1) \<Rightarrow>
             (case read_block_number w3 tr1 of
                (None, tr2) \<Rightarrow> (Inl RpcRaised, tr2)
              | (Some tip, tr2) \<Rightarrow>
                  (let r = resolve_range (arg_from_block a) (arg_to_block a) (arg_blocks a) tip in
                   case fetch_logs w3 tr2 (arg_address a) (fst r) (snd r) (arg_topic0 a) (arg_max_logs a) of
                     (Inl e, tr3) \<Rightarrow> (Inl e, tr3)
                   | (Inr snapshot, tr3) \<Rightarrow>
                       (case read_chain_id w3 tr3 of
                          (None, tr4) \<Rightarrow> (Inl RpcRaised, tr4)
                        | (Some cid, tr4) \<Rightarrow>
                            (case normalize_address w3 (arg_address a) of
                               Inl e \<Rightarrow> (Inl e, tr4)
                             | Inr addr \<Rightarrow>
                                 (Inr \<lparr> pl_mode = ''zk_bridge_events_snapshot'',
                                        pl_network = network_name cid,
                                        pl_chainId = cid,
                                        pl_bridgeAddress = addr,
                                        pl_data = snapshot \<rparr>, tr4)))))))"

section \<open>The specification's words\<close>

text \<open>
  The definitions of this section follow the specification, not the code. The
  theorems below compare them with what the code computes.
\<close>

text \<open>A normalized hex string (section 4.2): the prefix \<open>0x\<close>, then lowercase hex digits.\<close>

definition lower_hex_digits :: "char set" where
  "lower_hex_digits = set ''0123456789abcdef''"

definition is_lower_hex :: "string \<Rightarrow> bool" where
  "is_lower_hex s = (take 2 s = ''0x'' \<and> list_all (\<lambda>c. c \<in> lower_hex_digits) (drop 2 s))"

text \<open>The value of a hex digit, the inverse of \<open>hex_digit\<close> below 16.\<close>

definition hex_value :: "char \<Rightarrow> nat" where
  "hex_value c = (let n = (of_char c :: nat) in if n < 58 then n - 48 else n - 87)"

text \<open>The integer that a string of decimal digits, with an optional minus sign, denotes.\<close>

definition decimal_nat :: "string \<Rightarrow> nat" where
  "decimal_nat s = foldl (\<lambda>a c. 10 * a + (of_char c - 48)) 0 s"

definition decimal_value :: "string \<Rightarrow> int" where
  "decimal_value s =
     (case s of
        [] \<Rightarrow> 0
      | c # cs \<Rightarrow> if c = CHR ''-'' then - int (decimal_nat cs) else int (decimal_nat s))"

text \<open>
  The canonical encoding (section 4.5): every record is a structure of five fields, the
  keys in lexicographic order, integers in decimal, hex strings as they are between
  double quotes, and the separators \<open>,\<close> and \<open>:\<close> with no white space.
\<close>

definition quoted :: "string \<Rightarrow> string" where
  "quoted s = CHR 0x22 # s @ [CHR 0x22]"

definition canonical_fields :: "log_entry \<Rightarrow> (string \<times> string) list" where
  "canonical_fields e =
     [(''blockNumber'', int_repr (blockNumber e)),
      (''data'', quoted (data e)),
      (''logIndex'', int_repr (logIndex e)),
      (''topics'', ''['' @ join '','' (map quoted (topics e)) @ '']''),
      (''transactionHash'', quoted (transactionHash e))]"

definition canonical_record :: "log_entry \<Rightarrow> string" where
  "canonical_record e =
     ''{'' @ join '','' (map (\<lambda>kv. quoted (fst kv) @ '':'' @ snd kv) (canonical_fields e)) @ ''}''"

definition canonical_encoding :: "log_entry list \<Rightarrow> string" where
  "canonical_encoding ls = ''['' @ join '','' (map canonical_record ls) @ '']''"

text \<open>
  The composite order of section 4.4: block number, then transaction hash compared as a
  string, character by character, then log index.
\<close>

fun str_less :: "string \<Rightarrow> string \<Rightarrow> bool" where
  "str_less [] [] = False"
| "str_less [] (y # ys) = True"
| "str_less (x # xs) [] = False"
| "str_less (x # xs) (y # ys) =
     ((of_char x :: nat) < of_char y \<or> (x = y \<and> str_less xs ys))"

definition key_le :: "log_entry \<Rightarrow> log_entry \<Rightarrow> bool" where
  "key_le a b =
     (blockNumber a < blockNumber b \<or>
      (blockNumber a = blockNumber b \<and>
        (str_less (transactionHash a) (transactionHash b) \<or>
         (transactionHash a = transactionHash b \<and> logIndex a \<le> logIndex b))))"

text \<open>A string without white space: no character for which \<open>str.isspace\<close> holds.\<close>

definition no_space :: "string \<Rightarrow> bool" where
  "no_space s = (\<forall>c \<in> set s. \<not> py_isspace c)"

section \<open>Example inputs\<close>

text \<open>
  Three logs with 32-byte transaction hashes. \<open>log_A\<close> and \<open>log_B\<close> are the two
  records of the example in section 8 of the specification; \<open>log_C\<close> belongs to the
  transaction of \<open>log_A\<close>; \<open>log_A2\<close> has the block number, transaction hash and log
  index of \<open>log_A\<close> and another payload.
\<close>

definition hash_aa :: bytes where
  "hash_aa = [0xaa, 0xaa, 0xaa, 0xaa, 0xaa, 0xaa, 0xaa, 0xaa, 0xaa, 0xaa, 0xaa, 0xaa, 0xaa, 0xaa, 0xaa, 0xaa,
              0xaa, 0xaa, 0xaa, 0xaa, 0xaa, 0xaa, 0xaa, 0xaa, 0xaa, 0xaa, 0xaa, 0xaa, 0xaa, 0xaa, 0xaa, 0xaa]"

definition hash_bb :: bytes where
  "hash_bb = [0xbb, 0xbb, 0xbb, 0xbb, 0xbb, 0xbb, 0xbb, 0xbb, 0xbb, 0xbb, 0xbb, 0xbb, 0xbb, 0xbb, 0xbb, 0xbb,
              0xbb, 0xbb, 0xbb, 0xbb, 0xbb, 0xbb, 0xbb, 0xbb, 0xbb, 0xbb, 0xbb, 0xbb, 0xbb, 0xbb, 0xbb, 0xbb]"

definition log_A :: raw_log where
  "log_A = \<lparr> lg_blockNumber = 100, lg_transactionHash = hash_aa, lg_logIndex = 1,
             lg_data = [], lg_topics = [] \<rparr>"

definition log_B :: raw_log where
  "log_B = \<lparr> lg_blockNumber = 99, lg_transactionHash = hash_bb, lg_logIndex = 0,
             lg_data = [0x01, 0xff], lg_topics = [hash_bb] \<rparr>"

definition log_C :: raw_log where
  "log_C = \<lparr> lg_blockNumber = 101, lg_transactionHash = hash_aa, lg_logIndex = 2,
             lg_data = [], lg_topics = [] \<rparr>"

definition log_A2 :: raw_log where
  "log_A2 = \<lparr> lg_blockNumber = 100, lg_transactionHash = hash_aa, lg_logIndex = 1,
              lg_data = [0x01], lg_topics = [] \<rparr>"

text \<open>
  A node whose tip is block 1000 and which answers a filter with the logs of
  \<open>log_B, log_A, log_C\<close> that lie in the requested range. The library accepts every
  address as it is. The hash is a stand-in without collisions: the digest is the hex
  rendering of the whole input.
\<close>

definition example_w3 :: web3 where
  "example_w3 =
     \<lparr> to_checksum_address = Some,
       keccak_hex = to_hex,
       is_connected = True,
       chain_id = Some 1,
       block_number = (\<lambda>k. Some 1000),
       get_logs = (\<lambda>p. Some (filter (\<lambda>lg. fp_fromBlock p \<le> lg_blockNumber lg
                                           \<and> lg_blockNumber lg \<le> fp_toBlock p)
                                  [log_B, log_A, log_C])) \<rparr>"


definition example_args :: args where
  "example_args =
     \<lparr> arg_address = ''0x0000000000000000000000000000000000000001'',
       arg_rpc = ''http://localhost:8545'',
       arg_from_block = None,
       arg_to_block = None,
       arg_blocks = 2000,
       arg_topic0 = None,
       arg_max_logs = 5000,
       arg_pretty = False,
       arg_no_human = False \<rparr>"

section \<open>Lemmas\<close>

subsection \<open>Hexadecimal rendering is injective and needs no escaping\<close>

lemma hex_value_hex_digit: "n < 16 \<Longrightarrow> hex_value (hex_digit n) = n"
proof -
  assume "n < 16"
  then have "n \<in> {0,1,2,3,4,5,6,7,8,9,10,11,12,13,14,15}"
    by simp arith
  then show ?thesis
    by (auto simp: hex_digit_def hex_value_def)
qed

lemma hex_digit_inj: "n < 16 \<Longrightarrow> m < 16 \<Longrightarrow> hex_digit n = hex_digit m \<Longrightarrow> n = m"
  by (metis hex_value_hex_digit)

lemma hex_byte_inj: "hex_byte a = hex_byte b \<Longrightarrow> a = b"
proof -
  assume h: "hex_byte a = hex_byte b"
  have "unat a div 16 < 16" "unat b div 16 < 16"
    using unsigned_less [of a, where 'a = nat] unsigned_less [of b, where 'a = nat] by auto
  moreover have "unat a mod 16 < 16" "unat b mod 16 < 16" by auto
  ultimately have "unat a div 16 = unat b div 16" "unat a mod 16 = unat b mod 16"
    using h by (simp_all add: hex_byte_def hex_digit_inj)
  then have "unat a = unat b"
    by (metis div_mult_mod_eq)
  then show "a = b" by (simp add: word_unat_eq_iff)
qed

lemma concat_hex_byte_inj:
  "concat (map hex_byte as) = concat (map hex_byte bs) \<Longrightarrow> as = bs"
proof (induction as arbitrary: bs)
  case Nil
  then show ?case by (cases bs) (auto simp: hex_byte_def)
next
  case (Cons a as)
  show ?case
  proof (cases bs)
    case Nil
    with Cons.prems show ?thesis by (simp add: hex_byte_def)
  next
    case (Cons b bs')
    with Cons.prems
    have "hex_byte a @ concat (map hex_byte as) = hex_byte b @ concat (map hex_byte bs')"
      by simp
    moreover have "length (hex_byte a) = length (hex_byte b)"
      by (simp add: hex_byte_def)
    ultimately have "hex_byte a = hex_byte b"
      "concat (map hex_byte as) = concat (map hex_byte bs')"
      by simp_all
    with Cons.IH Cons show ?thesis
      by (simp add: hex_byte_inj)
  qed
qed

lemma to_hex_inj: "to_hex as = to_hex bs \<Longrightarrow> as = bs"
  by (simp add: to_hex_def concat_hex_byte_inj)

lemma length_to_hex: "length (to_hex bs) = 2 + 2 * length bs"
  by (induction bs) (auto simp: to_hex_def hex_byte_def)

lemma normalize_log_inj: "normalize_log a = normalize_log b \<Longrightarrow> a = b"
proof -
  assume h: "normalize_log a = normalize_log b"
  then have "lg_blockNumber a = lg_blockNumber b" "lg_logIndex a = lg_logIndex b"
    "to_hex (lg_transactionHash a) = to_hex (lg_transactionHash b)"
    "to_hex (lg_data a) = to_hex (lg_data b)"
    "map to_hex (lg_topics a) = map to_hex (lg_topics b)"
    by (simp_all add: normalize_log_def)
  moreover have "inj to_hex"
    by (rule injI) (rule to_hex_inj)
  ultimately show "a = b"
    by (simp add: to_hex_inj inj_map_eq_map)
qed

lemma hex_digit_in_digits: "hex_digit n \<in> lower_hex_digits"
proof -
  have "n mod 16 < length ''0123456789abcdef''"
    by simp
  then have "''0123456789abcdef'' ! (n mod 16) \<in> set ''0123456789abcdef''"
    by (rule nth_mem)
  then show ?thesis
    by (simp only: hex_digit_def lower_hex_digits_def)
qed

lemma hex_digit_plain: "json_escape_char (hex_digit n) = [hex_digit n]"
proof -
  have "n mod 16 \<in> {0,1,2,3,4,5,6,7,8,9,10,11,12,13,14,15}"
    by simp arith
  then show ?thesis
    by (auto simp: hex_digit_def json_escape_char_def)
qed

lemma escape_hex_bytes:
  "concat (map json_escape_char (concat (map hex_byte bs))) = concat (map hex_byte bs)"
  by (induction bs) (simp_all add: hex_byte_def hex_digit_plain)

lemma json_str_to_hex: "json_str (to_hex bs) = quoted (to_hex bs)"
  by (simp add: json_str_def quoted_def to_hex_def escape_hex_bytes json_escape_char_def)

lemma hex_bytes_digits: "set (concat (map hex_byte bs)) \<subseteq> lower_hex_digits"
proof (induction bs)
  case Nil
  show ?case by simp
next
  case (Cons b bs)
  have "set (hex_byte b) \<subseteq> lower_hex_digits"
    using hex_digit_in_digits [of "unat b div 16"] hex_digit_in_digits [of "unat b mod 16"]
    by (simp add: hex_byte_def)
  with Cons.IH show ?case by simp
qed

lemma is_lower_hex_to_hex: "is_lower_hex (to_hex bs)"
proof -
  have "\<forall>c \<in> set (concat (map hex_byte bs)). c \<in> lower_hex_digits"
    using hex_bytes_digits [of bs] by blast
  then show ?thesis
    by (simp add: is_lower_hex_def to_hex_def list_all_iff)
qed

subsection \<open>What the loop computes\<close>

lemma scan_logs_logs:
  "ls_logs (scan_logs s xs) = ls_logs s @ map normalize_log xs"
  by (induction xs arbitrary: s) (simp_all add: loop_body_def Let_def)

lemma scan_logs_tx_set:
  "ls_tx_set (scan_logs s xs) = ls_tx_set s \<union> (\<lambda>lg. to_hex (lg_transactionHash lg)) ` set xs"
  by (induction xs arbitrary: s) (auto simp: loop_body_def Let_def normalize_log_def)

lemma scan_logs_min:
  "ls_min_block_seen (scan_logs s xs) =
     (if xs = [] then ls_min_block_seen s
      else Some (case ls_min_block_seen s of
                   None \<Rightarrow> Min (lg_blockNumber ` set xs)
                 | Some m \<Rightarrow> min m (Min (lg_blockNumber ` set xs))))"
proof (induction xs arbitrary: s)
  case Nil
  show ?case by simp
next
  case (Cons lg rest)
  show ?case
  proof (cases "rest = []")
    case True
    then show ?thesis
      by (auto simp: loop_body_def Let_def normalize_log_def split: option.splits)
  next
    case False
    then have "Min (lg_blockNumber ` set (lg # rest))
        = min (lg_blockNumber lg) (Min (lg_blockNumber ` set rest))"
      by simp
    with False show ?thesis
      unfolding scan_logs.simps Cons.IH
      by (auto simp: loop_body_def Let_def normalize_log_def min_def split: option.splits)
  qed
qed

lemma scan_logs_max:
  "ls_max_block_seen (scan_logs s xs) =
     (if xs = [] then ls_max_block_seen s
      else Some (case ls_max_block_seen s of
                   None \<Rightarrow> Max (lg_blockNumber ` set xs)
                 | Some m \<Rightarrow> max m (Max (lg_blockNumber ` set xs))))"
proof (induction xs arbitrary: s)
  case Nil
  show ?case by simp
next
  case (Cons lg rest)
  show ?case
  proof (cases "rest = []")
    case True
    then show ?thesis
      by (auto simp: loop_body_def Let_def normalize_log_def split: option.splits)
  next
    case False
    then have "Max (lg_blockNumber ` set (lg # rest))
        = max (lg_blockNumber lg) (Max (lg_blockNumber ` set rest))"
      by simp
    with False show ?thesis
      unfolding scan_logs.simps Cons.IH
      by (auto simp: loop_body_def Let_def normalize_log_def max_def split: option.splits)
  qed
qed

subsection \<open>What \<open>fetch_logs\<close> returns\<close>

lemma build_snapshot_logs:
  "snap_logs (build_snapshot w3 from_block to_block topic0 max_logs logs_raw)
     = sort_logs (map normalize_log (truncate_logs max_logs logs_raw))"
  by (simp add: build_snapshot_def Let_def scan_logs_logs loop_init_def)

lemma build_snapshot_requested:
  "fromBlockRequested (snap_meta (build_snapshot w3 from_block to_block topic0 max_logs logs_raw))
     = from_block"
  "toBlockRequested (snap_meta (build_snapshot w3 from_block to_block topic0 max_logs logs_raw))
     = to_block"
  by (simp_all add: build_snapshot_def Let_def)

lemma build_snapshot_effective:
  "fromBlockEffective (snap_meta (build_snapshot w3 from_block to_block topic0 max_logs logs_raw))
     = (if truncate_logs max_logs logs_raw = [] then from_block
        else Min (lg_blockNumber ` set (truncate_logs max_logs logs_raw)))"
  "toBlockEffective (snap_meta (build_snapshot w3 from_block to_block topic0 max_logs logs_raw))
     = (if truncate_logs max_logs logs_raw = [] then to_block
        else Max (lg_blockNumber ` set (truncate_logs max_logs logs_raw)))"
  by (simp_all add: build_snapshot_def Let_def scan_logs_min scan_logs_max loop_init_def)

lemma blockNumber_normalize_log: "blockNumber (normalize_log lg) = lg_blockNumber lg"
  by (simp add: normalize_log_def)

lemma snapshot_block_numbers:
  "blockNumber ` set (snap_logs (build_snapshot w3 from_block to_block topic0 max_logs logs_raw))
     = lg_blockNumber ` set (truncate_logs max_logs logs_raw)"
  by (simp add: build_snapshot_logs sort_logs_def image_image blockNumber_normalize_log)

subsection \<open>Counts, order and truncation\<close>

lemma build_snapshot_counts:
  "logCount (snap_meta (build_snapshot w3 from_block to_block topic0 max_logs logs_raw))
     = length (truncate_logs max_logs logs_raw)"
  "uniqueTxCount (snap_meta (build_snapshot w3 from_block to_block topic0 max_logs logs_raw))
     = card (lg_transactionHash ` set (truncate_logs max_logs logs_raw))"
proof -
  show "logCount (snap_meta (build_snapshot w3 from_block to_block topic0 max_logs logs_raw))
     = length (truncate_logs max_logs logs_raw)"
    by (simp add: build_snapshot_def Let_def scan_logs_logs loop_init_def sort_logs_def)
  have "inj to_hex"
    by (rule injI) (rule to_hex_inj)
  then have "card (to_hex ` (lg_transactionHash ` set (truncate_logs max_logs logs_raw)))
      = card (lg_transactionHash ` set (truncate_logs max_logs logs_raw))"
    by (intro card_image) (rule inj_on_subset [where A = UNIV], simp_all)
  then show "uniqueTxCount (snap_meta (build_snapshot w3 from_block to_block topic0 max_logs logs_raw))
     = card (lg_transactionHash ` set (truncate_logs max_logs logs_raw))"
    by (simp add: build_snapshot_def Let_def scan_logs_tx_set loop_init_def image_image)
qed

lemma str_less_iff: "str_less xs ys \<longleftrightarrow> xs < ys"
  by (induction xs ys rule: str_less.induct) (auto simp: less_char_def)

lemma key_le_iff: "key_le a b \<longleftrightarrow> sort_key_of a \<le> sort_key_of b"
  by (auto simp: key_le_def sort_key_of_def str_less_iff less_eq_prod_def)

lemma sorted_wrt_key_le: "sorted_wrt key_le ls \<longleftrightarrow> sorted (map sort_key_of ls)"
  by (induction ls) (auto simp: key_le_iff)

lemma sort_logs_sorted: "sorted_wrt key_le (sort_logs ls)"
  by (simp add: sorted_wrt_key_le sort_logs_def)

lemma sort_logs_stable:
  "filter (\<lambda>x. sort_key_of x = k) (sort_logs ls) = filter (\<lambda>x. sort_key_of x = k) ls"
  by (simp add: sort_logs_def sort_key_stable)

lemma sort_logs_unique:
  assumes "mset ys = mset ls"
    and "sorted_wrt key_le ys"
    and "\<And>k. filter (\<lambda>x. sort_key_of x = k) ys = filter (\<lambda>x. sort_key_of x = k) ls"
  shows "ys = sort_logs ls"
proof -
  have "sort_key sort_key_of ls = ys"
  proof (rule properties_for_sort_key)
    show "mset ys = mset ls" by (rule assms(1))
    show "sorted (map sort_key_of ys)"
      using assms(2) by (simp add: sorted_wrt_key_le)
    fix k
    show "filter (\<lambda>x. sort_key_of k = sort_key_of x) ys = filter (\<lambda>x. sort_key_of k = sort_key_of x) ls"
      using assms(3) [of "sort_key_of k"] by (simp add: eq_commute)
  qed
  then show ?thesis by (simp add: sort_logs_def)
qed

lemma truncate_logs_cases:
  "max_logs > 0 \<and> int (length logs_raw) > max_logs \<Longrightarrow>
     truncate_logs max_logs logs_raw = take (nat max_logs) logs_raw"
  "max_logs \<le> 0 \<or> int (length logs_raw) \<le> max_logs \<Longrightarrow>
     truncate_logs max_logs logs_raw = logs_raw"
  by (auto simp: truncate_logs_def)


lemma normalize_examples:
  "normalize_log log_A = \<lparr> blockNumber = 100,
      transactionHash = ''0xaaaaaaaaaaaaaaaaaaaaaaaaaaaaaaaaaaaaaaaaaaaaaaaaaaaaaaaaaaaaaaaa'',
      logIndex = 1, data = ''0x'', topics = [] \<rparr>"
  "normalize_log log_B = \<lparr> blockNumber = 99,
      transactionHash = ''0xbbbbbbbbbbbbbbbbbbbbbbbbbbbbbbbbbbbbbbbbbbbbbbbbbbbbbbbbbbbbbbbb'',
      logIndex = 0, data = ''0x01ff'',
      topics = [''0xbbbbbbbbbbbbbbbbbbbbbbbbbbbbbbbbbbbbbbbbbbbbbbbbbbbbbbbbbbbbbbbb''] \<rparr>"
  "normalize_log log_C = \<lparr> blockNumber = 101,
      transactionHash = ''0xaaaaaaaaaaaaaaaaaaaaaaaaaaaaaaaaaaaaaaaaaaaaaaaaaaaaaaaaaaaaaaaa'',
      logIndex = 2, data = ''0x'', topics = [] \<rparr>"
  "normalize_log log_A2 = \<lparr> blockNumber = 100,
      transactionHash = ''0xaaaaaaaaaaaaaaaaaaaaaaaaaaaaaaaaaaaaaaaaaaaaaaaaaaaaaaaaaaaaaaaa'',
      logIndex = 1, data = ''0x01'', topics = [] \<rparr>"
  by (simp_all add: normalize_log_def log_A_def log_B_def log_C_def log_A2_def hash_aa_def hash_bb_def
      to_hex_def hex_byte_def hex_digit_def)

subsection \<open>The request and the trace of \<open>fetch_logs\<close> and \<open>main\<close>\<close>

lemma swap_clamp:
  "clamp_range latest (swap_range from_block to_block)
     = (min from_block to_block, min (max from_block to_block) latest)"
  by (auto simp: clamp_range_def swap_range_def)

lemma fetch_logs_unfold:
  "fetch_logs w3 tr address from_block to_block topic0 max_logs =
     (case normalize_address w3 address of
        Inl e \<Rightarrow> (Inl e, tr)
      | Inr addr \<Rightarrow>
          (case block_number w3 (tip_reads tr) of
             None \<Rightarrow> (Inl RpcRaised, tr @ [CallBlockNumber])
           | Some latest \<Rightarrow>
               (let lo = min from_block to_block;
                    hi = min (max from_block to_block) latest;
                    p = make_params addr lo hi topic0
                in case get_logs w3 p of
                     None \<Rightarrow> (Inl FetchFailed, tr @ [CallBlockNumber, CallGetLogs p])
                   | Some logs_raw \<Rightarrow>
                       (Inr (build_snapshot w3 lo hi topic0 max_logs logs_raw),
                        tr @ [CallBlockNumber, CallGetLogs p]))))"
  by (simp add: fetch_logs_def read_block_number_def swap_clamp Let_def
      split: sum.splits option.splits)

lemma main_connects_first:
  "0 < arg_blocks a \<Longrightarrow> \<exists>rest. snd (main w3 a) = CallIsConnected # rest"
  by (auto simp: main_def connect_def read_chain_id_def read_block_number_def fetch_logs_unfold Let_def
      split: prod.splits sum.splits option.splits if_splits)


subsection \<open>\<open>json.dumps\<close> writes the canonical encoding\<close>

lemma json_str_keys:
  "json_str ''blockNumber'' = quoted ''blockNumber''"
  "json_str ''data'' = quoted ''data''"
  "json_str ''logIndex'' = quoted ''logIndex''"
  "json_str ''topics'' = quoted ''topics''"
  "json_str ''transactionHash'' = quoted ''transactionHash''"
  by (simp_all add: json_str_def quoted_def json_escape_char_def)

lemma sorted_entry_keys:
  "sort_key fst [(''blockNumber'', a), (''transactionHash'', b), (''logIndex'', c), (''data'', d), (''topics'', e)]
   = [(''blockNumber'', a), (''data'', d), (''logIndex'', c), (''topics'', e), (''transactionHash'', b)]"
  by simp

lemma json_dumps_hex_list:
  "map (json_dumps \<circ> (JStr \<circ> to_hex)) ts = map (quoted \<circ> to_hex) ts"
  by (simp add: json_str_to_hex)

lemma json_dumps_entry:
  "json_dumps (entry_json (normalize_log lg)) = canonical_record (normalize_log lg)"
  unfolding entry_json_def json_dumps.simps sorted_entry_keys
  by (simp add: canonical_record_def canonical_fields_def normalize_log_def json_str_to_hex
      json_str_keys json_dumps_hex_list)

lemma json_dumps_entries:
  "\<forall>e \<in> set ls. e \<in> range normalize_log \<Longrightarrow>
     json_dumps (JList (map entry_json ls)) = canonical_encoding ls"
proof -
  assume "\<forall>e \<in> set ls. e \<in> range normalize_log"
  then have "map (json_dumps \<circ> entry_json) ls = map canonical_record ls"
    by (auto simp: json_dumps_entry)
  then show ?thesis
    by (simp only: json_dumps.simps canonical_encoding_def map_map)
qed

lemma encode_sorted_logs:
  "encode_logs (sort_logs (map normalize_log xs))
     = str_encode (canonical_encoding (sort_logs (map normalize_log xs)))"
proof -
  have "\<forall>e \<in> set (sort_logs (map normalize_log xs)). e \<in> range normalize_log"
    by (auto simp: sort_logs_def)
  then show ?thesis
    by (simp only: encode_logs_def json_dumps_entries)
qed

lemma build_snapshot_commitment:
  "commitmentKeccak (snap_meta (build_snapshot w3 from_block to_block topic0 max_logs logs_raw))
     = keccak_hex w3 (str_encode (canonical_encoding
         (sort_logs (map normalize_log (truncate_logs max_logs logs_raw)))))"
  by (simp add: build_snapshot_def Let_def scan_logs_logs loop_init_def encode_sorted_logs)


lemma canonical_examples:
  \<open>canonical_record (normalize_log log_A) =
     ''{"blockNumber":100,"data":"0x","logIndex":1,"topics":[],"transactionHash":"0xaaaaaaaaaaaaaaaaaaaaaaaaaaaaaaaaaaaaaaaaaaaaaaaaaaaaaaaaaaaaaaaa"}''\<close>
  \<open>canonical_record (normalize_log log_B) =
     ''{"blockNumber":99,"data":"0x01ff","logIndex":0,"topics":["0xbbbbbbbbbbbbbbbbbbbbbbbbbbbbbbbbbbbbbbbbbbbbbbbbbbbbbbbbbbbbbbbb"],"transactionHash":"0xbbbbbbbbbbbbbbbbbbbbbbbbbbbbbbbbbbbbbbbbbbbbbbbbbbbbbbbbbbbbbbbb"}''\<close>
  \<open>canonical_record (normalize_log log_A2) =
     ''{"blockNumber":100,"data":"0x01","logIndex":1,"topics":[],"transactionHash":"0xaaaaaaaaaaaaaaaaaaaaaaaaaaaaaaaaaaaaaaaaaaaaaaaaaaaaaaaaaaaaaaaa"}''\<close>
  by (simp_all add: normalize_examples canonical_record_def canonical_fields_def quoted_def
      int_repr_def show_nat.simps digit_char_def)





subsection \<open>Decimal integers\<close>

lemma of_char_digit_char: "d < 10 \<Longrightarrow> of_char (digit_char d) = (48 + d :: nat)"
proof -
  assume "d < 10"
  then have "d \<in> {0,1,2,3,4,5,6,7,8,9}"
    by simp arith
  then show ?thesis
    by (auto simp: digit_char_def)
qed

lemma decimal_nat_snoc:
  "decimal_nat (s @ [c]) = 10 * decimal_nat s + (of_char c - 48)"
  by (simp add: decimal_nat_def)

lemma decimal_nat_show_nat: "decimal_nat (show_nat n) = n"
proof (induction n rule: show_nat.induct)
  case (1 n)
  show ?case
  proof (cases "n < 10")
    case True
    then show ?thesis
      by (simp add: show_nat.simps [of n] decimal_nat_def of_char_digit_char)
  next
    case False
    with 1 have "decimal_nat (show_nat (n div 10)) = n div 10"
      by simp
    with False show ?thesis
      by (simp add: show_nat.simps [of n] decimal_nat_snoc of_char_digit_char)
  qed
qed

lemma digit_char_not_minus: "digit_char d \<noteq> CHR ''-''"
proof -
  have "of_char (digit_char d) = (48 + d mod 10 :: nat)"
    using of_char_digit_char [of "d mod 10"] by (simp add: digit_char_def)
  then show ?thesis by auto
qed

lemma show_nat_not_Nil: "show_nat n \<noteq> []"
  by (simp add: show_nat.simps [of n])

lemma hd_show_nat: "hd (show_nat n) \<noteq> CHR ''-''"
proof (induction n rule: show_nat.induct)
  case (1 n)
  show ?case
  proof (cases "n < 10")
    case True
    then show ?thesis
      by (simp add: show_nat.simps [of n] digit_char_not_minus)
  next
    case False
    with 1 show ?thesis
      by (simp add: show_nat.simps [of n] show_nat_not_Nil)
  qed
qed

lemma decimal_value_int_repr: "decimal_value (int_repr i) = i"
proof (cases "i < 0")
  case True
  then show ?thesis
    by (simp add: decimal_value_def int_repr_def decimal_nat_show_nat)
next
  case False
  obtain c cs where s: "show_nat (nat i) = c # cs"
    using show_nat_not_Nil [of "nat i"] by (cases "show_nat (nat i)") auto
  with hd_show_nat [of "nat i"] have "c \<noteq> CHR ''-''"
    by simp
  with False s decimal_nat_show_nat [of "nat i"] show ?thesis
    by (simp add: decimal_value_def int_repr_def)
qed


subsection \<open>No white space in the encoding\<close>

lemma no_space_append: "no_space (a @ b) \<longleftrightarrow> no_space a \<and> no_space b"
  by (auto simp: no_space_def)

lemma no_space_Cons: "no_space (c # s) \<longleftrightarrow> \<not> py_isspace c \<and> no_space s"
  by (simp add: no_space_def)

lemma no_space_Nil: "no_space []"
  by (simp add: no_space_def)

lemma no_space_join:
  "no_space sep \<Longrightarrow> \<forall>p \<in> set ps. no_space p \<Longrightarrow> no_space (join sep ps)"
  by (induction sep ps rule: join.induct) (simp_all add: no_space_append no_space_Nil)

lemma digit_char_no_space: "\<not> py_isspace (digit_char d)"
proof -
  have "of_char (digit_char d) = (48 + d mod 10 :: nat)"
    using of_char_digit_char [of "d mod 10"] by (simp add: digit_char_def)
  moreover have "d mod 10 < 10"
    by simp
  ultimately show ?thesis
    by (simp add: py_isspace_def) arith
qed

lemma no_space_show_nat: "no_space (show_nat n)"
proof (induction n rule: show_nat.induct)
  case (1 n)
  then show ?case
    by (cases "n < 10")
      (simp_all add: show_nat.simps [of n] no_space_append no_space_Cons no_space_Nil digit_char_no_space)
qed

lemma no_space_int_repr: "no_space (int_repr i)"
  by (simp add: int_repr_def no_space_Cons no_space_show_nat py_isspace_def)

lemma hex_digit_no_space: "\<not> py_isspace (hex_digit n)"
proof -
  have "n mod 16 \<in> {0,1,2,3,4,5,6,7,8,9,10,11,12,13,14,15}"
    by simp arith
  then show ?thesis
    by (auto simp: hex_digit_def py_isspace_def)
qed

lemma no_space_to_hex: "no_space (to_hex bs)"
proof -
  have "no_space (concat (map hex_byte bs))"
    by (induction bs)
      (simp_all add: no_space_Nil no_space_append no_space_Cons hex_byte_def hex_digit_no_space)
  then show ?thesis
    by (simp add: to_hex_def no_space_Cons py_isspace_def)
qed

lemma no_space_quoted: "no_space s \<Longrightarrow> no_space (quoted s)"
  by (simp add: quoted_def no_space_Cons no_space_append no_space_Nil py_isspace_def)

lemma no_space_canonical_record: "no_space (canonical_record (normalize_log lg))"
proof -
  have "no_space (join '','' (map quoted (map to_hex (lg_topics lg))))"
    by (rule no_space_join)
      (auto simp: no_space_Cons no_space_Nil py_isspace_def no_space_quoted no_space_to_hex)
  then show ?thesis
    by (simp add: canonical_record_def canonical_fields_def normalize_log_def
        no_space_append no_space_Cons no_space_Nil no_space_int_repr no_space_quoted no_space_to_hex
        quoted_def py_isspace_def)
qed

lemma no_space_canonical_encoding:
  "\<forall>e \<in> set ls. e \<in> range normalize_log \<Longrightarrow> no_space (canonical_encoding ls)"
proof -
  assume a: "\<forall>e \<in> set ls. e \<in> range normalize_log"
  have "no_space (join '','' (map canonical_record ls))"
  proof (rule no_space_join)
    show "no_space '',''"
      by (simp add: no_space_Cons no_space_Nil py_isspace_def)
    show "\<forall>p \<in> set (map canonical_record ls). no_space p"
      using a by (auto simp: no_space_canonical_record)
  qed
  then show ?thesis
    by (simp add: canonical_encoding_def no_space_append no_space_Cons no_space_Nil py_isspace_def)
qed

lemma canonical_keys_sorted:
  "sorted (map fst (canonical_fields e))" "distinct (map fst (canonical_fields e))"
  by (simp_all add: canonical_fields_def)


subsection \<open>Multisets of records\<close>

lemma count_map_inj:
  "inj f \<Longrightarrow> count (mset (map f xs)) (f x) = count (mset xs) x"
  by (induction xs) (auto dest: injD)

lemma count_map_ge:
  "count (mset xs) x \<le> count (mset (map f xs)) (f x)"
  by (induction xs) auto




lemma order_dependence_for_any_separating_hash:
  assumes "keccak_hex w3 (encode_logs [normalize_log log_A2, normalize_log log_A])
         \<noteq> keccak_hex w3 (encode_logs [normalize_log log_A, normalize_log log_A2])"
  shows "commitmentKeccak (snap_meta (build_snapshot w3 from_block to_block topic0 5000 [log_A2, log_A]))
       \<noteq> commitmentKeccak (snap_meta (build_snapshot w3 from_block to_block topic0 5000 [log_A, log_A2]))"
proof -
  have s1: "sort_logs (map normalize_log (truncate_logs 5000 [log_A2, log_A]))
      = [normalize_log log_A2, normalize_log log_A]"
    by (simp add: truncate_logs_def sort_logs_def sort_key_of_def normalize_examples)
  have s2: "sort_logs (map normalize_log (truncate_logs 5000 [log_A, log_A2]))
      = [normalize_log log_A, normalize_log log_A2]"
    by (simp add: truncate_logs_def sort_logs_def sort_key_of_def normalize_examples)
  have c: "commitmentKeccak (snap_meta (build_snapshot w3 from_block to_block topic0 5000 xs))
      = keccak_hex w3 (encode_logs (sort_logs (map normalize_log (truncate_logs 5000 xs))))" for xs
    by (simp add: build_snapshot_commitment encode_sorted_logs)
  show ?thesis
    unfolding c s1 s2 by (rule assms)
qed

section \<open>The claims\<close>

text \<open>
  C1. The commitment of a snapshot is the hash of the canonical encoding of the
  snapshot's records, and these are exactly the retained records, the batch after
  truncation, in sorted order: none is left out and none is added. What
  \<open>json.dumps\<close> writes for them is the canonical encoding of the specification:
  the keys of every record in lexicographic order, integers in decimal, lowercase
  \<open>0x\<close> hex strings, and no white space.
\<close>

theorem commitment_of_sorted_retained:
  "let snap = build_snapshot w3 from_block to_block topic0 max_logs logs_raw;
       kept = map normalize_log (truncate_logs max_logs logs_raw);
       ordered = sort_logs kept
   in snap_logs snap = ordered
    \<and> sorted_wrt key_le ordered
    \<and> mset ordered = mset kept
    \<and> logCount (snap_meta snap) = length ordered
    \<and> commitmentKeccak (snap_meta snap) = keccak_hex w3 (encode_logs ordered)
    \<and> encode_logs ordered = str_encode (canonical_encoding ordered)
    \<and> (\<forall>e \<in> set ordered.
          sorted (map fst (canonical_fields e)) \<and> distinct (map fst (canonical_fields e))
        \<and> decimal_value (int_repr (blockNumber e)) = blockNumber e
        \<and> decimal_value (int_repr (logIndex e)) = logIndex e
        \<and> is_lower_hex (transactionHash e) \<and> is_lower_hex (data e)
        \<and> list_all is_lower_hex (topics e))
    \<and> (\<forall>c \<in> set (canonical_encoding ordered). \<not> py_isspace c)"
proof -
  let ?kept = "map normalize_log (truncate_logs max_logs logs_raw)"
  let ?ordered = "sort_logs ?kept"
  have range: "\<forall>e \<in> set ?ordered. e \<in> range normalize_log"
    by (auto simp: sort_logs_def)
  have hex: "is_lower_hex (transactionHash e) \<and> is_lower_hex (data e) \<and> list_all is_lower_hex (topics e)"
    if "e \<in> set ?ordered" for e
  proof -
    from that range obtain lg where "e = normalize_log lg"
      by blast
    then show ?thesis
      by (simp add: normalize_log_def is_lower_hex_to_hex list_all_iff)
  qed
  have "no_space (canonical_encoding ?ordered)"
    using range by (rule no_space_canonical_encoding)
  then have ws: "\<forall>c \<in> set (canonical_encoding ?ordered). \<not> py_isspace c"
    by (simp add: no_space_def)
  have "mset ?ordered = mset ?kept"
    by (simp add: sort_logs_def)
  moreover have "logCount (snap_meta (build_snapshot w3 from_block to_block topic0 max_logs logs_raw))
      = length ?ordered"
    by (simp add: build_snapshot_counts sort_logs_def)
  moreover have "commitmentKeccak (snap_meta (build_snapshot w3 from_block to_block topic0 max_logs logs_raw))
      = keccak_hex w3 (encode_logs ?ordered)"
    by (simp add: build_snapshot_commitment encode_sorted_logs)
  ultimately show ?thesis
    unfolding Let_def build_snapshot_logs
    using hex ws sort_logs_sorted [of ?kept] encode_sorted_logs [of "truncate_logs max_logs logs_raw"]
    by (simp add: canonical_keys_sorted decimal_value_int_repr)
qed

theorem commitment_of_sorted_retained_witness:
  \<open>snap_logs (build_snapshot example_w3 0 1000 None 2 [log_A, log_B, log_C])
     = [normalize_log log_B, normalize_log log_A]
   \<and> normalize_log log_B \<in> set (snap_logs (build_snapshot example_w3 0 1000 None 2 [log_A, log_B, log_C]))
   \<and> is_lower_hex (transactionHash (normalize_log log_B))
   \<and> commitmentKeccak (snap_meta (build_snapshot example_w3 0 1000 None 2 [log_A, log_B, log_C]))
     = keccak_hex example_w3 (str_encode
         ''[{"blockNumber":99,"data":"0x01ff","logIndex":0,"topics":["0xbbbbbbbbbbbbbbbbbbbbbbbbbbbbbbbbbbbbbbbbbbbbbbbbbbbbbbbbbbbbbbbb"],"transactionHash":"0xbbbbbbbbbbbbbbbbbbbbbbbbbbbbbbbbbbbbbbbbbbbbbbbbbbbbbbbbbbbbbbbb"},{"blockNumber":100,"data":"0x","logIndex":1,"topics":[],"transactionHash":"0xaaaaaaaaaaaaaaaaaaaaaaaaaaaaaaaaaaaaaaaaaaaaaaaaaaaaaaaaaaaaaaaa"}]'')\<close>
proof -
  have ordered: "sort_logs (map normalize_log (truncate_logs 2 [log_A, log_B, log_C]))
      = [normalize_log log_B, normalize_log log_A]"
    by (simp add: truncate_logs_def sort_logs_def sort_key_of_def normalize_examples)
  have enc: \<open>canonical_encoding [normalize_log log_B, normalize_log log_A] =
     ''[{"blockNumber":99,"data":"0x01ff","logIndex":0,"topics":["0xbbbbbbbbbbbbbbbbbbbbbbbbbbbbbbbbbbbbbbbbbbbbbbbbbbbbbbbbbbbbbbbb"],"transactionHash":"0xbbbbbbbbbbbbbbbbbbbbbbbbbbbbbbbbbbbbbbbbbbbbbbbbbbbbbbbbbbbbbbbb"},{"blockNumber":100,"data":"0x","logIndex":1,"topics":[],"transactionHash":"0xaaaaaaaaaaaaaaaaaaaaaaaaaaaaaaaaaaaaaaaaaaaaaaaaaaaaaaaaaaaaaaaa"}]''\<close>
    by (simp add: canonical_encoding_def canonical_examples)
  from commitment_of_sorted_retained [of example_w3 0 1000 None 2 "[log_A, log_B, log_C]"]
  show ?thesis
    unfolding Let_def ordered
    by (simp add: enc)
qed




text \<open>
  C3. When the limit is positive and the node returned more records than the limit,
  exactly the first \<open>max_logs\<close> records in the order of arrival are retained and the
  rest is dropped; when the limit is 0 or the batch is not larger than the limit, all
  records are retained. The snapshot's records are the retained ones, sorted: the
  truncation comes before the sort.
\<close>

theorem prefix_truncation_before_sort:
  "let kept = truncate_logs max_logs logs_raw;
       snap = build_snapshot w3 from_block to_block topic0 max_logs logs_raw
   in (max_logs > 0 \<and> int (length logs_raw) > max_logs \<longrightarrow>
         kept = take (nat max_logs) logs_raw \<and>
         int (length kept) = max_logs \<and>
         kept @ drop (nat max_logs) logs_raw = logs_raw)
    \<and> (max_logs = 0 \<or> int (length logs_raw) \<le> max_logs \<longrightarrow> kept = logs_raw)
    \<and> snap_logs snap = sort_logs (map normalize_log kept)
    \<and> mset (snap_logs snap) = mset (map normalize_log kept)
    \<and> logCount (snap_meta snap) = length kept"
  unfolding Let_def
  by (auto simp: truncate_logs_cases build_snapshot_logs build_snapshot_counts sort_logs_def)

theorem prefix_truncation_before_sort_witness:
  "(1::int) > 0 \<and> int (length [log_C, log_B, log_A]) > 1
   \<and> truncate_logs 1 [log_C, log_B, log_A] = [log_C]
   \<and> snap_logs (build_snapshot example_w3 0 1000 None 1 [log_C, log_B, log_A]) = [normalize_log log_C]
   \<and> int (length [log_C, log_B, log_A]) \<le> 3
   \<and> truncate_logs 3 [log_C, log_B, log_A] = [log_C, log_B, log_A]
   \<and> snap_logs (build_snapshot example_w3 0 1000 None 0 [log_C, log_B, log_A])
       = [normalize_log log_B, normalize_log log_A, normalize_log log_C]"
  using prefix_truncation_before_sort [of 1 "[log_C, log_B, log_A]" example_w3 0 1000 None]
    prefix_truncation_before_sort [of 3 "[log_C, log_B, log_A]" example_w3 0 1000 None]
    prefix_truncation_before_sort [of 0 "[log_C, log_B, log_A]" example_w3 0 1000 None]
  by (simp add: Let_def sort_logs_def sort_key_of_def normalize_examples)

text \<open>
  C4, as amended. When only \<open>toBlock\<close> is given, \<open>fromBlock\<close> is
  \<open>max(0, toBlock - blocks + 1)\<close>. When only \<open>fromBlock\<close> is given,
  \<open>toBlock\<close> is the tip of the chain, whatever \<open>blocks\<close> is.
\<close>

theorem one_bound_given:
  "resolve_range None (Some t) blocks tip = (max 0 (t - blocks + 1), t)
   \<and> resolve_range (Some f) None blocks tip = (f, tip)"
  by (simp add: resolve_range_def)

text \<open>
  C4 as stated fails. With \<open>fromBlock = 100\<close> and \<open>blocks = 10\<close> the
  resolved \<open>toBlock\<close> is 5000 when the tip is 5000 and 6000 when the tip is 6000,
  and it is still 5000 with \<open>blocks = 999\<close>: it follows the tip, not
  \<open>fromBlock\<close> and \<open>blocks\<close>.
\<close>

theorem to_block_from_tip_counterexample:
  "snd (resolve_range (Some 100) None 10 5000) = 5000
   \<and> snd (resolve_range (Some 100) None 10 6000) = 6000
   \<and> snd (resolve_range (Some 100) None 999 5000) = 5000"
  by (simp add: resolve_range_def)




text \<open>
  C6. The effective range of a snapshot is the minimum and the maximum block number
  among the retained records, which are the records of the snapshot; when no record is
  retained, it is the requested range, the bounds \<open>fetch_logs\<close> used for the request.
\<close>

theorem effective_range_min_max:
  "let snap = build_snapshot w3 from_block to_block topic0 max_logs logs_raw;
       kept = truncate_logs max_logs logs_raw;
       m = snap_meta snap
   in (kept \<noteq> [] \<longrightarrow>
         fromBlockEffective m = Min (lg_blockNumber ` set kept) \<and>
         toBlockEffective m = Max (lg_blockNumber ` set kept) \<and>
         fromBlockEffective m = Min (blockNumber ` set (snap_logs snap)) \<and>
         toBlockEffective m = Max (blockNumber ` set (snap_logs snap)))
    \<and> (kept = [] \<longrightarrow>
         snap_logs snap = [] \<and>
         fromBlockEffective m = from_block \<and> fromBlockEffective m = fromBlockRequested m \<and>
         toBlockEffective m = to_block \<and> toBlockEffective m = toBlockRequested m)"
  unfolding Let_def
  by (simp add: build_snapshot_effective build_snapshot_requested snapshot_block_numbers)
    (simp add: build_snapshot_logs sort_logs_def)

theorem effective_range_min_max_witness:
  "truncate_logs 0 [log_A, log_B, log_C] \<noteq> []
   \<and> fromBlockEffective (snap_meta (build_snapshot example_w3 0 1000 None 0 [log_A, log_B, log_C])) = 99
   \<and> toBlockEffective (snap_meta (build_snapshot example_w3 0 1000 None 0 [log_A, log_B, log_C])) = 101
   \<and> truncate_logs 0 ([] :: raw_log list) = []
   \<and> fromBlockEffective (snap_meta (build_snapshot example_w3 7 1000 None 0 [])) = 7
   \<and> toBlockEffective (snap_meta (build_snapshot example_w3 7 1000 None 0 [])) = 1000"
  using effective_range_min_max [of example_w3 0 1000 None 0 "[log_A, log_B, log_C]"]
    effective_range_min_max [of example_w3 7 1000 None 0 "[]"]
  by (simp add: Let_def truncate_logs_def log_A_def log_B_def log_C_def)

text \<open>
  C7. The records of a snapshot are the retained records in the composite order of block
  number, transaction hash as a string and log index, all ascending. The sort is stable:
  for every key, the records with that key are in the order of the input. These
  properties leave one possible output.
\<close>

theorem canonical_sort_stable:
  "let inp = map normalize_log (truncate_logs max_logs logs_raw);
       out = snap_logs (build_snapshot w3 from_block to_block topic0 max_logs logs_raw)
   in out = sort_logs inp
    \<and> sorted_wrt key_le out
    \<and> mset out = mset inp
    \<and> (\<forall>k. filter (\<lambda>x. sort_key_of x = k) out = filter (\<lambda>x. sort_key_of x = k) inp)
    \<and> (\<forall>ys. mset ys = mset inp \<and> sorted_wrt key_le ys \<and>
              (\<forall>k. filter (\<lambda>x. sort_key_of x = k) ys = filter (\<lambda>x. sort_key_of x = k) inp)
            \<longrightarrow> ys = out)"
proof -
  let ?inp = "map normalize_log (truncate_logs max_logs logs_raw)"
  have "mset (sort_logs ?inp) = mset ?inp"
    by (simp add: sort_logs_def)
  moreover have "\<forall>ys. mset ys = mset ?inp \<and> sorted_wrt key_le ys \<and>
              (\<forall>k. filter (\<lambda>x. sort_key_of x = k) ys = filter (\<lambda>x. sort_key_of x = k) ?inp)
            \<longrightarrow> ys = sort_logs ?inp"
    using sort_logs_unique [of _ ?inp] by blast
  ultimately show ?thesis
    unfolding Let_def build_snapshot_logs
    using sort_logs_sorted [of ?inp] sort_logs_stable [of _ ?inp]
    by blast
qed

theorem canonical_sort_stable_witness:
  "snap_logs (build_snapshot example_w3 0 1000 None 0 [log_A2, log_C, log_A, log_B])
     = [normalize_log log_B, normalize_log log_A2, normalize_log log_A, normalize_log log_C]
   \<and> snap_logs (build_snapshot example_w3 0 1000 None 0 [log_A, log_C, log_A2, log_B])
     = [normalize_log log_B, normalize_log log_A, normalize_log log_A2, normalize_log log_C]
   \<and> sort_key_of (normalize_log log_A) = sort_key_of (normalize_log log_A2)
   \<and> sorted_wrt key_le [normalize_log log_B, normalize_log log_A2, normalize_log log_A, normalize_log log_C]"
proof -
  have "snap_logs (build_snapshot example_w3 0 1000 None 0 [log_A2, log_C, log_A, log_B])
     = sort_logs (map normalize_log (truncate_logs 0 [log_A2, log_C, log_A, log_B]))"
    "sorted_wrt key_le (snap_logs (build_snapshot example_w3 0 1000 None 0 [log_A2, log_C, log_A, log_B]))"
    using canonical_sort_stable [of 0 "[log_A2, log_C, log_A, log_B]" example_w3 0 1000 None]
    unfolding Let_def by blast+
  moreover have "snap_logs (build_snapshot example_w3 0 1000 None 0 [log_A, log_C, log_A2, log_B])
     = sort_logs (map normalize_log (truncate_logs 0 [log_A, log_C, log_A2, log_B]))"
    using canonical_sort_stable [of 0 "[log_A, log_C, log_A2, log_B]" example_w3 0 1000 None]
    unfolding Let_def by blast
  ultimately show ?thesis
    by (simp add: truncate_logs_def sort_logs_def sort_key_of_def normalize_examples)
qed

text \<open>
  C8. \<open>uniqueTxCount\<close> is the number of distinct transaction hashes among the
  retained records, counted after truncation. Three records of two transactions give 2.
\<close>

theorem unique_tx_count:
  "let snap = build_snapshot w3 from_block to_block topic0 max_logs logs_raw;
       kept = truncate_logs max_logs logs_raw
   in uniqueTxCount (snap_meta snap) = card (lg_transactionHash ` set kept)
    \<and> uniqueTxCount (snap_meta snap) = length (remdups (map lg_transactionHash kept))
    \<and> uniqueTxCount (snap_meta snap) = card (transactionHash ` set (snap_logs snap))"
proof -
  let ?kept = "truncate_logs max_logs logs_raw"
  have "inj to_hex"
    by (rule injI) (rule to_hex_inj)
  then have "card (to_hex ` (lg_transactionHash ` set ?kept)) = card (lg_transactionHash ` set ?kept)"
    by (intro card_image) (rule inj_on_subset [where A = UNIV], simp_all)
  moreover have "transactionHash ` set (sort_logs (map normalize_log ?kept))
      = to_hex ` (lg_transactionHash ` set ?kept)"
    by (simp add: sort_logs_def image_image normalize_log_def)
  ultimately show ?thesis
    unfolding Let_def build_snapshot_logs
    by (simp add: build_snapshot_counts length_remdups_card_conv)
qed

theorem unique_tx_count_example:
  "length [log_A, log_B, log_C] = 3
   \<and> card (lg_transactionHash ` set [log_A, log_B, log_C]) = 2
   \<and> uniqueTxCount (snap_meta (build_snapshot example_w3 0 1000 None 0 [log_A, log_B, log_C])) = 2
   \<and> uniqueTxCount (snap_meta (build_snapshot example_w3 0 1000 None 1 [log_A, log_B, log_C])) = 1"
  using unique_tx_count [of example_w3 0 1000 None 0 "[log_A, log_B, log_C]"]
    unique_tx_count [of example_w3 0 1000 None 1 "[log_A, log_B, log_C]"]
  by (simp add: Let_def truncate_logs_def log_A_def log_B_def log_C_def hash_aa_def hash_bb_def)

text \<open>
  C9. With \<open>blocks <= 0\<close>, \<open>main\<close> ends with the configuration error and
  an empty trace: no request has been sent to the node and there is no snapshot.
\<close>

theorem blocks_not_positive_aborts:
  "arg_blocks a \<le> 0 \<Longrightarrow> fst (main w3 a) = Inl BlocksNotPositive \<and> snd (main w3 a) = []"
  by (simp add: main_def)

theorem blocks_not_positive_aborts_witness:
  "arg_blocks (example_args \<lparr> arg_blocks := 0 \<rparr>) \<le> 0
   \<and> main example_w3 (example_args \<lparr> arg_blocks := 0 \<rparr>) = (Inl BlocksNotPositive, [])
   \<and> arg_blocks (example_args \<lparr> arg_blocks := - 5 \<rparr>) \<le> 0
   \<and> main example_w3 (example_args \<lparr> arg_blocks := - 5 \<rparr>) = (Inl BlocksNotPositive, [])"
  using blocks_not_positive_aborts [of "example_args \<lparr> arg_blocks := 0 \<rparr>" example_w3]
    blocks_not_positive_aborts [of "example_args \<lparr> arg_blocks := - 5 \<rparr>" example_w3]
  by (simp add: prod_eq_iff example_args_def)

text \<open>
  C10. Nothing is deduplicated. Every retained record occurs in the snapshot as often
  as in the retained batch, \<open>logCount\<close> is the length of the retained batch, and
  the hashed encoding has one part for every record of the snapshot, so a record that
  arrives twice is written twice.
\<close>

theorem no_deduplication:
  "let snap = build_snapshot w3 from_block to_block topic0 max_logs logs_raw;
       kept = truncate_logs max_logs logs_raw
   in logCount (snap_meta snap) = length kept
    \<and> length (snap_logs snap) = length kept
    \<and> (\<forall>lg. count (mset (snap_logs snap)) (normalize_log lg) = count (mset kept) lg)
    \<and> commitmentKeccak (snap_meta snap)
        = keccak_hex w3 (str_encode (''['' @ join '','' (map canonical_record (snap_logs snap)) @ '']''))
    \<and> (\<forall>lg. count (mset kept) lg
             \<le> count (mset (map canonical_record (snap_logs snap))) (canonical_record (normalize_log lg)))"
proof -
  let ?kept = "truncate_logs max_logs logs_raw"
  let ?out = "sort_logs (map normalize_log ?kept)"
  have inj: "inj normalize_log"
    by (rule injI) (rule normalize_log_inj)
  have m: "mset ?out = mset (map normalize_log ?kept)"
    by (simp add: sort_logs_def)
  have c: "count (mset ?out) (normalize_log lg) = count (mset ?kept) lg" for lg
    unfolding m using inj by (rule count_map_inj)
  have "count (mset ?kept) lg \<le> count (mset (map canonical_record ?out)) (canonical_record (normalize_log lg))"
    for lg
    using count_map_ge [of ?out "normalize_log lg" canonical_record] by (simp only: c)
  moreover have "length ?out = length ?kept"
    by (simp add: sort_logs_def)
  ultimately show ?thesis
    unfolding Let_def build_snapshot_logs
    using c
    by (simp add: build_snapshot_counts build_snapshot_commitment canonical_encoding_def)
qed

theorem no_deduplication_example:
  \<open>snap_logs (build_snapshot example_w3 0 1000 None 0 [log_A, log_B, log_A])
     = [normalize_log log_B, normalize_log log_A, normalize_log log_A]
   \<and> logCount (snap_meta (build_snapshot example_w3 0 1000 None 0 [log_A, log_B, log_A])) = 3
   \<and> commitmentKeccak (snap_meta (build_snapshot example_w3 0 1000 None 0 [log_A, log_A]))
     = keccak_hex example_w3 (str_encode
         ''[{"blockNumber":100,"data":"0x","logIndex":1,"topics":[],"transactionHash":"0xaaaaaaaaaaaaaaaaaaaaaaaaaaaaaaaaaaaaaaaaaaaaaaaaaaaaaaaaaaaaaaaa"},{"blockNumber":100,"data":"0x","logIndex":1,"topics":[],"transactionHash":"0xaaaaaaaaaaaaaaaaaaaaaaaaaaaaaaaaaaaaaaaaaaaaaaaaaaaaaaaaaaaaaaaa"}]'')\<close>
proof -
  have l3: "snap_logs (build_snapshot example_w3 0 1000 None 0 [log_A, log_B, log_A])
     = [normalize_log log_B, normalize_log log_A, normalize_log log_A]"
    by (simp add: build_snapshot_logs truncate_logs_def sort_logs_def sort_key_of_def normalize_examples)
  have l2: "snap_logs (build_snapshot example_w3 0 1000 None 0 [log_A, log_A])
     = [normalize_log log_A, normalize_log log_A]"
    by (simp add: build_snapshot_logs truncate_logs_def sort_logs_def sort_key_of_def normalize_examples)
  from no_deduplication [of example_w3 0 1000 None 0 "[log_A, log_B, log_A]"]
    no_deduplication [of example_w3 0 1000 None 0 "[log_A, log_A]"]
  show ?thesis
    unfolding Let_def l2 l3
    by (simp add: truncate_logs_def canonical_examples)
qed

end
